theory Spec2Isabelle
  imports Complex_Main
begin

section \<open>Python values\<close>

text \<open>
  The pipeline of \<^verbatim>\<open>run.py\<close> handles Python objects of a few shapes: the document
  returned by \<^verbatim>\<open>yaml.safe_load\<close>, the arguments of the logging calls and the
  dictionaries handed to \<^verbatim>\<open>json.dump\<close>. One datatype covers them. A dictionary is
  the list of its items (keys are distinct in a Python dict, so \<open>map_of\<close> reads it).

  Floating-point numbers are idealised: a float is an exact rational, or \<open>None\<close> for
  NaN. Rounding error of IEEE arithmetic is outside this development.
\<close>

type_synonym pyfloat = "rat option"

datatype pyobj =
    PNone
  | PBool bool
  | PInt int
  | PFloat pyfloat
  | PStr string
  | PList "pyobj list"
  | PDict "(string \<times> pyobj) list"

type_synonym pydict = "(string \<times> pyobj) list"

text \<open>The exceptions the pipeline raises itself or receives from its libraries,
  each with the message that \<^verbatim>\<open>str(exc)\<close> returns.\<close>

datatype exn =
    FileNotFoundError string
  | ValueError string
  | TypeError string
  | KeyError string
  | DataError string
  | LibraryError string

fun str_exn :: "exn \<Rightarrow> string" where
  "str_exn (FileNotFoundError m) = m"
| "str_exn (ValueError m) = m"
| "str_exn (TypeError m) = m"
| "str_exn (KeyError k) = [CHR 0x27] @ k @ [CHR 0x27]"
| "str_exn (DataError m) = m"
| "str_exn (LibraryError m) = m"

text \<open>\<^verbatim>\<open>type(x).__name__\<close>\<close>

fun type_name :: "pyobj \<Rightarrow> string" where
  "type_name PNone = ''NoneType''"
| "type_name (PBool _) = ''bool''"
| "type_name (PInt _) = ''int''"
| "type_name (PFloat _) = ''float''"
| "type_name (PStr _) = ''str''"
| "type_name (PList _) = ''list''"
| "type_name (PDict _) = ''dict''"

text \<open>The two classes \<^verbatim>\<open>load_config\<close> tests with \<^verbatim>\<open>isinstance\<close>. In Python
  \<^verbatim>\<open>bool\<close> is a subclass of \<^verbatim>\<open>int\<close>, so a boolean is an instance of \<^verbatim>\<open>int\<close>.\<close>

datatype pytype = Int_t | Str_t

fun pytype_name :: "pytype \<Rightarrow> string" where
  "pytype_name Int_t = ''int''"
| "pytype_name Str_t = ''str''"

fun isinstance :: "pyobj \<Rightarrow> pytype \<Rightarrow> bool" where
  "isinstance (PInt _) Int_t = True"
| "isinstance (PBool _) Int_t = True"
| "isinstance (PStr _) Str_t = True"
| "isinstance _ _ = False"

text \<open>The integer a value stands for where Python uses it as a number
  (\<^verbatim>\<open>True\<close> is 1 and \<^verbatim>\<open>False\<close> is 0); \<open>None\<close> where it is not an integer.\<close>

fun int_value :: "pyobj \<Rightarrow> int option" where
  "int_value (PInt n) = Some n"
| "int_value (PBool b) = Some (if b then 1 else 0)"
| "int_value _ = None"

section \<open>Effects\<close>

text \<open>
  Every function of \<^verbatim>\<open>run.py\<close> receives the logger and writes to it; \<^verbatim>\<open>main\<close>
  also reads the monotonic clock, seeds the random number generator, writes the output
  document and ends the process. These effects are recorded, in the order they happen,
  in a trace that each function takes and returns extended. A logging call is recorded
  with its level, its format string and its arguments, as the call passes them.
\<close>

datatype level = INFO | ERROR

datatype event =
    Monotonic rat
  | Log level string "pyobj list"
  | SeedRNG int
  | WriteOutput string pydict
  | Print pydict
  | Exit int

type_synonym trace = "event list"

definition logger_info :: "string \<Rightarrow> pyobj list \<Rightarrow> trace \<Rightarrow> trace" where
  "logger_info fmt args tr = tr @ [Log INFO fmt args]"

definition logger_error :: "string \<Rightarrow> pyobj list \<Rightarrow> trace \<Rightarrow> trace" where
  "logger_error fmt args tr = tr @ [Log ERROR fmt args]"

section \<open>Tables\<close>

text \<open>
  A data frame is its row count and its columns by name. A column read from a CSV
  file is numeric (a missing cell is NaN) or holds strings (dtype \<^verbatim>\<open>object\<close>).
\<close>

datatype column = Numeric "pyfloat list" | Object "string list"

fun column_length :: "column \<Rightarrow> nat" where
  "column_length (Numeric cs) = length cs"
| "column_length (Object ss) = length ss"

record table =
  nrows :: nat
  columns :: "(string \<times> column) list"

definition well_formed :: "table \<Rightarrow> bool" where
  "well_formed df \<longleftrightarrow> list_all (\<lambda>(name, c). column_length c = nrows df) (columns df)"

text \<open>\<^verbatim>\<open>df.empty\<close>: an axis of length 0.\<close>

definition df_empty :: "table \<Rightarrow> bool" where
  "df_empty df \<longleftrightarrow> nrows df = 0 \<or> columns df = []"

text \<open>\<^verbatim>\<open>df["close"]\<close>\<close>

definition df_getitem :: "table \<Rightarrow> string \<Rightarrow> exn + column" where
  "df_getitem df name =
     (case map_of (columns df) name of
        None \<Rightarrow> Inl (KeyError name)
      | Some c \<Rightarrow> Inr c)"

section \<open>Signal engine\<close>

subsection \<open>The rolling mean of pandas\<close>

text \<open>
  \<^verbatim>\<open>Series.rolling(window=w, min_periods=m).mean()\<close> looks, at row \<open>i\<close>, at the rows
  \<open>max(0, i - w + 1) .. i\<close>, counts the cells among them that are not NaN, and returns
  their mean when the count reaches \<open>m\<close> (and is positive), NaN otherwise.
\<close>

definition window_rows :: "nat \<Rightarrow> nat \<Rightarrow> 'a list \<Rightarrow> 'a list" where
  "window_rows w i xs = drop (Suc i - w) (take (Suc i) xs)"

fun observations :: "pyfloat list \<Rightarrow> rat list" where
  "observations [] = []"
| "observations (None # cs) = observations cs"
| "observations (Some x # cs) = x # observations cs"

definition rolling_mean_at :: "nat \<Rightarrow> nat \<Rightarrow> pyfloat list \<Rightarrow> nat \<Rightarrow> pyfloat" where
  "rolling_mean_at w minp cs i =
     (let obs = observations (window_rows w i cs)
      in if minp \<le> length obs \<and> 0 < length obs
         then Some (sum_list obs / of_nat (length obs))
         else None)"

definition rolling_mean :: "nat \<Rightarrow> nat \<Rightarrow> pyfloat list \<Rightarrow> pyfloat list" where
  "rolling_mean w minp cs = map (rolling_mean_at w minp cs) [0..<length cs]"

text \<open>
  The validation pandas applies to the arguments of \<^verbatim>\<open>rolling\<close>: both must be
  integers in its own sense, which excludes booleans, and not negative.
\<close>

fun rolling_validate :: "pyobj \<Rightarrow> exn + nat" where
  "rolling_validate (PInt n) =
     (if n < 0 then Inl (ValueError ''min_periods must be >= 0'') else Inr (nat n))"
| "rolling_validate _ = Inl (ValueError ''min_periods must be an integer'')"

subsection \<open>compute_rolling_mean and generate_signals\<close>

definition compute_rolling_mean :: "table \<Rightarrow> pyobj \<Rightarrow> trace \<Rightarrow> (exn + pyfloat list) \<times> trace" where
  "compute_rolling_mean df window tr =
     (case df_getitem df ''close'' of
        Inl e \<Rightarrow> (Inl e, tr)
      | Inr (Object ss) \<Rightarrow>
          (case rolling_validate window of
             Inl e \<Rightarrow> (Inl e, tr)
           | Inr w \<Rightarrow> (Inl (DataError ''No numeric types to aggregate''), tr))
      | Inr (Numeric cs) \<Rightarrow>
          (case rolling_validate window of
             Inl e \<Rightarrow> (Inl e, tr)
           | Inr w \<Rightarrow>
               (Inr (rolling_mean w w cs),
                logger_info ''Rolling mean calculated (window=%d)'' [window] tr)))"

text \<open>A comparison of floats is false as soon as one side is NaN.\<close>

fun float_gt :: "pyfloat \<Rightarrow> pyfloat \<Rightarrow> bool" where
  "float_gt (Some x) (Some y) = (y < x)"
| "float_gt _ _ = False"

definition astype_int :: "bool list \<Rightarrow> int list" where
  "astype_int bs = map (\<lambda>b. if b then 1 else 0) bs"

text \<open>\<^verbatim>\<open>fillna(0)\<close> on a series of integers, which has no missing value, changes
  nothing, and so does the second \<^verbatim>\<open>astype(int)\<close>.\<close>

definition fillna_int :: "int \<Rightarrow> int list \<Rightarrow> int list" where
  "fillna_int v xs = xs"

definition generate_signals :: "table \<Rightarrow> pyfloat list \<Rightarrow> trace \<Rightarrow> (exn + int list) \<times> trace" where
  "generate_signals df rolling tr =
     (case df_getitem df ''close'' of
        Inl e \<Rightarrow> (Inl e, tr)
      | Inr (Object ss) \<Rightarrow>
          (Inl (TypeError ''Invalid comparison between dtype=object and float''), tr)
      | Inr (Numeric cs) \<Rightarrow>
          (if length cs \<noteq> length rolling
           then (Inl (ValueError ''Can only compare identically-labeled Series objects''), tr)
           else
             (let signal = astype_int (map2 float_gt cs rolling);
                  signal = fillna_int 0 signal
              in (Inr signal,
                  logger_info ''Signals generated: %d total'' [PInt (int (length signal))] tr))))"

section \<open>Metrics\<close>

text \<open>\<^verbatim>\<open>Series.mean()\<close> of a series of integers; NaN when the series is empty.\<close>

definition series_mean :: "int list \<Rightarrow> pyfloat" where
  "series_mean xs =
     (if xs = [] then None else Some (of_int (sum_list xs) / of_nat (length xs)))"

text \<open>\<^verbatim>\<open>round(x, ndigits)\<close> rounds to the nearest multiple of \<open>10 ^ -ndigits\<close>, a tie
  going to the even one; \<^verbatim>\<open>round(nan, 4)\<close> is NaN.\<close>

definition round_half_even :: "rat \<Rightarrow> int" where
  "round_half_even x =
     (let f = \<lfloor>x\<rfloor>; d = x - of_int f
      in if d < 1 / 2 then f
         else if 1 / 2 < d then f + 1
         else if even f then f else f + 1)"

definition py_round :: "rat \<Rightarrow> nat \<Rightarrow> rat" where
  "py_round x ndigits = of_int (round_half_even (x * 10 ^ ndigits)) / 10 ^ ndigits"

definition round_float :: "pyfloat \<Rightarrow> nat \<Rightarrow> pyfloat" where
  "round_float x ndigits = map_option (\<lambda>v. py_round v ndigits) x"

definition compute_metrics ::
    "table \<Rightarrow> int list \<Rightarrow> pyobj \<Rightarrow> pyobj \<Rightarrow> int \<Rightarrow> trace \<Rightarrow> pydict \<times> trace" where
  "compute_metrics df signal version seed latency_ms tr =
     (let rows_processed = int (nrows df);
          signal_rate = series_mean signal;
          metrics =
            [(''version'', version),
             (''rows_processed'', PInt rows_processed),
             (''metric'', PStr ''signal_rate''),
             (''value'', PFloat (round_float signal_rate 4)),
             (''latency_ms'', PInt latency_ms),
             (''seed'', seed),
             (''status'', PStr ''success'')]
      in (metrics,
          logger_info ''Metrics: rows_processed=%d, signal_rate=%.4f, latency_ms=%d''
            [PInt rows_processed, PFloat signal_rate, PInt latency_ms] tr))"

definition write_output :: "pydict \<Rightarrow> string \<Rightarrow> trace \<Rightarrow> trace" where
  "write_output metrics output_path tr = tr @ [WriteOutput output_path metrics, Print metrics]"

definition build_error_output :: "pyobj \<Rightarrow> string \<Rightarrow> pydict" where
  "build_error_output version error_message =
     [(''version'', version),
      (''status'', PStr ''error''),
      (''error_message'', PStr error_message)]"

section \<open>Loading the configuration and the data\<close>

text \<open>
  The files the run reads, by path. A configuration file is given by what
  \<^verbatim>\<open>yaml.safe_load\<close> makes of its content (a document, or the exception it raises); an
  input file by its size in bytes and by what \<^verbatim>\<open>pd.read_csv\<close> makes of it. A path
  that maps to \<open>None\<close> does not exist.
\<close>

type_synonym yaml_files = "string \<Rightarrow> (exn + pyobj) option"
type_synonym csv_files = "string \<Rightarrow> (nat \<times> (exn + table)) option"

definition quoted :: "string \<Rightarrow> string" where
  "quoted s = [CHR 0x27] @ s @ [CHR 0x27]"

definition required_fields :: "(string \<times> pytype) list" where
  "required_fields = [(''seed'', Int_t), (''window'', Int_t), (''version'', Str_t)]"

text \<open>The loop over \<^verbatim>\<open>required_fields.items()\<close>; \<open>Some\<close> is the exception raised.\<close>

fun check_fields :: "pydict \<Rightarrow> (string \<times> pytype) list \<Rightarrow> exn option" where
  "check_fields config [] = None"
| "check_fields config ((field, expected_type) # rest) =
     (case map_of config field of
        None \<Rightarrow> Some (ValueError (''Missing required config field: '' @ quoted field))
      | Some v \<Rightarrow>
          if \<not> isinstance v expected_type
          then Some (TypeError (''Config field '' @ quoted field @ '' must be ''
                       @ pytype_name expected_type @ '', got '' @ type_name v))
          else check_fields config rest)"

text \<open>\<^verbatim>\<open>d[key]\<close>\<close>

definition getitem :: "pydict \<Rightarrow> string \<Rightarrow> exn + pyobj" where
  "getitem d key = (case map_of d key of None \<Rightarrow> Inl (KeyError key) | Some v \<Rightarrow> Inr v)"

text \<open>\<^verbatim>\<open>v < 1\<close> for a value that is an instance of \<^verbatim>\<open>int\<close>\<close>

definition less_than_one :: "pyobj \<Rightarrow> exn + bool" where
  "less_than_one v =
     (case int_value v of
        None \<Rightarrow> Inl (TypeError (''< not supported between instances of '' @ quoted (type_name v)
                       @ '' and '' @ quoted ''int''))
      | Some n \<Rightarrow> Inr (n < 1))"

definition load_config :: "string \<Rightarrow> yaml_files \<Rightarrow> trace \<Rightarrow> (exn + pydict) \<times> trace" where
  "load_config config_path files tr =
     (case files config_path of
        None \<Rightarrow> (Inl (FileNotFoundError (''Config file not found: '' @ config_path)), tr)
      | Some (Inl e) \<Rightarrow> (Inl e, tr)
      | Some (Inr doc) \<Rightarrow>
          (case doc of
             PDict config \<Rightarrow>
               (case check_fields config required_fields of
                  Some e \<Rightarrow> (Inl e, tr)
                | None \<Rightarrow>
                    (case getitem config ''window'' of
                       Inl e \<Rightarrow> (Inl e, tr)
                     | Inr window \<Rightarrow>
                         (case less_than_one window of
                            Inl e \<Rightarrow> (Inl e, tr)
                          | Inr True \<Rightarrow>
                              (Inl (ValueError (''Config field '' @ quoted ''window''
                                      @ '' must be >= 1.'')), tr)
                          | Inr False \<Rightarrow>
                              (case (getitem config ''seed'', getitem config ''version'') of
                                 (Inr seed, Inr version) \<Rightarrow>
                                   (Inr config,
                                    logger_info ''Config loaded: seed=%d, window=%d, version=%s''
                                      [seed, window, version] tr)
                               | (Inl e, _) \<Rightarrow> (Inl e, tr)
                               | (_, Inl e) \<Rightarrow> (Inl e, tr)))))
           | _ \<Rightarrow> (Inl (ValueError ''Config file is empty or not a valid YAML mapping.''), tr)))"

definition load_data :: "string \<Rightarrow> csv_files \<Rightarrow> trace \<Rightarrow> (exn + table) \<times> trace" where
  "load_data input_path files tr =
     (case files input_path of
        None \<Rightarrow> (Inl (FileNotFoundError (''Input file not found: '' @ input_path)), tr)
      | Some (st_size, parsed) \<Rightarrow>
          if st_size = 0
          then (Inl (ValueError (''Input file is empty: '' @ input_path)), tr)
          else
            (case parsed of
               Inl e \<Rightarrow> (Inl e, tr)
             | Inr df \<Rightarrow>
                 if df_empty df
                 then (Inl (ValueError ''Input CSV has no data rows.''), tr)
                 else if map_of (columns df) ''close'' = None
                 then (Inl (ValueError (''Input CSV missing required column: '' @ quoted ''close'')), tr)
                 else (Inr df, logger_info ''Data loaded: %d rows'' [PInt (int (nrows df))] tr)))"

section \<open>The orchestrator\<close>

text \<open>\<^verbatim>\<open>np.random.seed(seed)\<close> takes the seed as an index and accepts 0 to \<open>2 ^ 32 - 1\<close>.\<close>

definition np_random_seed :: "pyobj \<Rightarrow> trace \<Rightarrow> (exn + unit) \<times> trace" where
  "np_random_seed seed tr =
     (case int_value seed of
        None \<Rightarrow> (Inl (TypeError ''Cannot cast scalar to an integer seed''), tr)
      | Some n \<Rightarrow>
          if n < 0 \<or> 2 ^ 32 - 1 < n
          then (Inl (ValueError ''Seed must be between 0 and 2**32 - 1''), tr)
          else (Inr (), tr @ [SeedRNG n]))"

text \<open>\<^verbatim>\<open>int(x)\<close> of a float truncates towards zero.\<close>

definition py_int :: "rat \<Rightarrow> int" where
  "py_int x = (if 0 \<le> x then \<lfloor>x\<rfloor> else \<lceil>x\<rceil>)"

text \<open>
  What a run is given: the four command-line arguments, the files, and the monotonic
  clock as the values its successive calls return.
\<close>

record env =
  arg_input :: string
  arg_config :: string
  arg_output :: string
  arg_log_file :: string
  config_files :: yaml_files
  input_files :: csv_files
  monotonic :: "nat \<Rightarrow> rat"

text \<open>
  The body of the \<^verbatim>\<open>try\<close> block of \<^verbatim>\<open>main\<close>. The handler reads the variable
  \<^verbatim>\<open>version\<close>, which the body assigns, so the body returns its value at the point
  where it ended together with the result and the trace.
\<close>

definition main_try :: "env \<Rightarrow> pyobj \<Rightarrow> trace \<Rightarrow> (exn + unit) \<times> pyobj \<times> trace" where
  "main_try e version0 tr0 =
     (let start_time = monotonic e 0;
          tr = tr0 @ [Monotonic start_time];
          tr = logger_info ''Job started'' [] tr
      in (case load_config (arg_config e) (config_files e) tr of
            (Inl exc, tr) \<Rightarrow> (Inl exc, version0, tr)
          | (Inr config, tr) \<Rightarrow>
      (case getitem config ''version'' of
            Inl exc \<Rightarrow> (Inl exc, version0, tr)
          | Inr version \<Rightarrow>
      (case getitem config ''seed'' of
            Inl exc \<Rightarrow> (Inl exc, version, tr)
          | Inr seed \<Rightarrow>
      (case getitem config ''window'' of
            Inl exc \<Rightarrow> (Inl exc, version, tr)
          | Inr window \<Rightarrow>
      (case np_random_seed seed tr of
            (Inl exc, tr) \<Rightarrow> (Inl exc, version, tr)
          | (Inr u, tr) \<Rightarrow>
      (case load_data (arg_input e) (input_files e)
              (logger_info ''Random seed set to %d'' [seed] tr) of
            (Inl exc, tr) \<Rightarrow> (Inl exc, version, tr)
          | (Inr df, tr) \<Rightarrow>
      (case compute_rolling_mean df window tr of
            (Inl exc, tr) \<Rightarrow> (Inl exc, version, tr)
          | (Inr rolling, tr) \<Rightarrow>
      (case generate_signals df rolling tr of
            (Inl exc, tr) \<Rightarrow> (Inl exc, version, tr)
          | (Inr signal, tr) \<Rightarrow>
      (let tr = tr @ [Monotonic (monotonic e 1)];
           elapsed_ms = py_int ((monotonic e 1 - start_time) * 1000);
           (metrics, tr) = compute_metrics df signal version seed elapsed_ms tr;
           tr = write_output metrics (arg_output e) tr;
           tr = logger_info ''Job completed successfully'' [] tr
       in (Inr (), version, tr)))))))))))"

text \<open>
  A run is the trace of its effects and its exit code. \<^verbatim>\<open>setup_logging\<close> opens the log
  file anew, so the trace starts empty; the fallback version is \<^verbatim>\<open>"v1"\<close>.
\<close>

record run =
  events :: trace
  exit_code :: int

definition main :: "env \<Rightarrow> run" where
  "main e =
     (let version = PStr ''v1''
      in case main_try e version [] of
           (Inr _, version, tr) \<Rightarrow> \<lparr>events = tr, exit_code = 0\<rparr>
         | (Inl exc, version, tr) \<Rightarrow>
             (let tr = logger_error ''Pipeline failed: %s'' [PStr (str_exn exc)] tr;
                  error_output = build_error_output version (str_exn exc);
                  tr = write_output error_output (arg_output e) tr
              in \<lparr>events = tr @ [Exit 1], exit_code = 1\<rparr>))"

text \<open>The documents a run wrote to a path, in order.\<close>

fun written :: "string \<Rightarrow> trace \<Rightarrow> pydict list" where
  "written path [] = []"
| "written path (WriteOutput p d # tr) = (if p = path then d # written path tr else written path tr)"
| "written path (_ # tr) = written path tr"

text \<open>The outcome of loading the configuration in an environment, whatever the log
  held before.\<close>

definition config_result :: "env \<Rightarrow> exn + pydict" where
  "config_result e = fst (load_config (arg_config e) (config_files e) [])"

section \<open>The data generator\<close>

text \<open>
  \<^verbatim>\<open>generate_data.py\<close> draws from the global generator of \<^verbatim>\<open>numpy.random\<close>, which is
  not part of the repository: it is a parameter here, given by the state a seed
  produces and by the two elementary draws (a standard normal value, a uniform value of
  the unit interval), each returning the next state. An array of \<open>count\<close> values is
  drawn one value after the other.
\<close>

record 's generator =
  seeded :: "int \<Rightarrow> 's"
  standard_normal :: "'s \<Rightarrow> rat \<times> 's"
  random_sample :: "'s \<Rightarrow> rat \<times> 's"

fun draw :: "('s \<Rightarrow> rat \<times> 's) \<Rightarrow> nat \<Rightarrow> 's \<Rightarrow> rat list \<times> 's" where
  "draw f 0 st = ([], st)"
| "draw f (Suc n) st =
     (case f st of (x, st1) \<Rightarrow> (case draw f n st1 of (xs, st2) \<Rightarrow> (x # xs, st2)))"

definition random_normal :: "'s generator \<Rightarrow> rat \<Rightarrow> rat \<Rightarrow> nat \<Rightarrow> 's \<Rightarrow> rat list \<times> 's" where
  "random_normal g loc scale count st =
     (case draw (standard_normal g) count st of
        (zs, st') \<Rightarrow> (map (\<lambda>z. loc + scale * z) zs, st'))"

definition random_uniform :: "'s generator \<Rightarrow> rat \<Rightarrow> rat \<Rightarrow> nat \<Rightarrow> 's \<Rightarrow> rat list \<times> 's" where
  "random_uniform g low high count st =
     (case draw (random_sample g) count st of
        (us, st') \<Rightarrow> (map (\<lambda>u. low + (high - low) * u) us, st'))"

fun cumprod_from :: "rat \<Rightarrow> rat list \<Rightarrow> rat list" where
  "cumprod_from acc [] = []"
| "cumprod_from acc (x # xs) = (acc * x) # cumprod_from (acc * x) xs"

definition cumprod :: "rat list \<Rightarrow> rat list" where
  "cumprod xs = cumprod_from 1 xs"

text \<open>\<^verbatim>\<open>pd.DataFrame\<close> of a dictionary of arrays, which must have one length.\<close>

definition data_frame :: "(string \<times> rat list) list \<Rightarrow> exn + table" where
  "data_frame arrays =
     (case arrays of
        [] \<Rightarrow> Inr \<lparr>nrows = 0, columns = []\<rparr>
      | (name, a) # rest \<Rightarrow>
          if list_all (\<lambda>(name', b). length b = length a) rest
          then Inr \<lparr>nrows = length a,
                    columns = map (\<lambda>(name', b). (name', Numeric (map Some b))) arrays\<rparr>
          else Inl (ValueError ''All arrays must be of the same length''))"

text \<open>
  \<^verbatim>\<open>df.to_csv(path, index=False)\<close> writes the header line and the rows. The file is
  given as the loader sees it: its size, the header's bytes and those of the rows, and
  the table \<^verbatim>\<open>pd.read_csv\<close> reads back, taken to be the table written.
\<close>

fun join :: "string \<Rightarrow> string list \<Rightarrow> string" where
  "join sep [] = []"
| "join sep [s] = s"
| "join sep (s # t # ss) = s @ sep @ join sep (t # ss)"

definition header_line :: "table \<Rightarrow> string" where
  "header_line df = join '','' (map fst (columns df)) @ [CHR 0x0A]"

definition to_csv :: "table \<Rightarrow> nat \<Rightarrow> nat \<times> (exn + table)" where
  "to_csv df rows_size = (length (header_line df) + rows_size, Inr df)"

text \<open>
  The script. It runs in a process whose generator is in some state \<open>st0\<close>; its
  first statement seeds the generator with 42. The result is the table it writes to
  \<^verbatim>\<open>data.csv\<close>, or the exception that ends it.
\<close>

definition generate_data :: "'s generator \<Rightarrow> 's \<Rightarrow> exn + table" where
  "generate_data g st0 =
     (let st = seeded g 42;
          n = 10000;
          base_price = 30000;
          (returns, st) = random_normal g (1 / 10000) (2 / 100) n st;
          close = map (\<lambda>c. base_price * c) (cumprod (map (\<lambda>r. 1 + r) returns));
          (up, st) = random_normal g 0 (5 / 1000) n st;
          high = map2 (\<lambda>c x. c * (1 + \<bar>x\<bar>)) close up;
          (down, st) = random_normal g 0 (5 / 1000) n st;
          low = map2 (\<lambda>c x. c * (1 - \<bar>x\<bar>)) close down;
          (mix, st) = random_uniform g (2 / 10) (8 / 10) n st;
          open_price = map2 (\<lambda>(l, h) u. l + (h - l) * u) (zip low high) mix;
          (vol, st) = random_uniform g 100 10000 n st;
          volume = map (\<lambda>v. py_round v 2) vol
      in data_frame
           [(''open'', map (\<lambda>v. py_round v 2) open_price),
            (''high'', map (\<lambda>v. py_round v 2) high),
            (''low'', map (\<lambda>v. py_round v 2) low),
            (''close'', map (\<lambda>v. py_round v 2) close),
            (''volume'', volume)])"

section \<open>The specification's notions\<close>

text \<open>
  The specification speaks of the arithmetic mean of \<open>close[i-w+1 .. i]\<close>. These
  definitions follow its words, not the code: the slice is read by index, and the
  mean is the sum divided by the count, in float arithmetic where an operation on NaN
  gives NaN.
\<close>

definition slice :: "'a list \<Rightarrow> nat \<Rightarrow> nat \<Rightarrow> 'a list" where
  "slice xs a b = map (\<lambda>j. xs ! j) [a..<b]"

fun float_add :: "pyfloat \<Rightarrow> pyfloat \<Rightarrow> pyfloat" where
  "float_add (Some x) (Some y) = Some (x + y)"
| "float_add _ _ = None"

definition arithmetic_mean :: "pyfloat list \<Rightarrow> pyfloat" where
  "arithmetic_mean xs =
     (case foldr float_add xs (Some 0) of
        None \<Rightarrow> None
      | Some s \<Rightarrow> if xs = [] then None else Some (s / of_nat (length xs)))"

text \<open>
  The specification places the start of the measured interval by the position of the
  first reading of the clock relative to the log line "Job started".
\<close>

fun position :: "('a \<Rightarrow> bool) \<Rightarrow> 'a list \<Rightarrow> nat option" where
  "position P [] = None"
| "position P (x # xs) = (if P x then Some 0 else map_option Suc (position P xs))"

fun is_clock_reading :: "event \<Rightarrow> bool" where
  "is_clock_reading (Monotonic t) = True"
| "is_clock_reading _ = False"

definition is_job_started :: "event \<Rightarrow> bool" where
  "is_job_started ev \<longleftrightarrow> ev = Log INFO ''Job started'' []"

definition interval_starts_after_job_started :: "trace \<Rightarrow> bool" where
  "interval_starts_after_job_started tr =
     (case (position is_job_started tr, position is_clock_reading tr) of
        (Some j, Some c) \<Rightarrow> c = Suc j
      | _ \<Rightarrow> False)"

definition interval_starts_before_job_started :: "trace \<Rightarrow> bool" where
  "interval_starts_before_job_started tr =
     (case (position is_job_started tr, position is_clock_reading tr) of
        (Some j, Some c) \<Rightarrow> j = Suc c
      | _ \<Rightarrow> False)"

section \<open>A worked example\<close>

text \<open>The scenario of the specification: five rows of closing prices.\<close>

definition example_df :: table where
  "example_df = \<lparr>nrows = 5,
     columns = [(''close'', Numeric [Some 10, Some 20, Some 15, Some 25, Some 30])]\<rparr>"

text \<open>A run on that table: window 2, seed 42, a quarter of a second between the two
  readings of the clock.\<close>

definition example_env :: env where
  "example_env =
     \<lparr>arg_input = ''data.csv'', arg_config = ''config.yaml'',
      arg_output = ''metrics.json'', arg_log_file = ''run.log'',
      config_files = [''config.yaml'' \<mapsto>
        Inr (PDict [(''seed'', PInt 42), (''window'', PInt 2), (''version'', PStr ''v1'')])],
      input_files = [''data.csv'' \<mapsto> (20, Inr example_df)],
      monotonic = (\<lambda>k. if k = 0 then 100 else 100 + 1 / 4)\<rparr>"


definition table_without_close :: table where
  "table_without_close = \<lparr>nrows = 2,
     columns = [(''open'', Numeric [Some 10, Some 20]), (''volume'', Numeric [Some 5, Some 6])]\<rparr>"

definition no_close_env :: env where
  "no_close_env = example_env
     \<lparr>config_files := [''config.yaml'' \<mapsto>
        Inr (PDict [(''seed'', PInt 42), (''window'', PInt 2), (''version'', PStr ''v2'')])],
      input_files := [''data.csv'' \<mapsto> (20, Inr table_without_close)]\<rparr>"

text \<open>A run on the five rows with a window of ten.\<close>

definition wide_window_env :: env where
  "wide_window_env = example_env
     \<lparr>config_files := [''config.yaml'' \<mapsto>
        Inr (PDict [(''seed'', PInt 42), (''window'', PInt 10), (''version'', PStr ''v1'')])]\<rparr>"

section \<open>The signal engine computes the crossover rule\<close>

lemma foldr_float_add:
  "foldr float_add xs (Some 0) =
     (if None \<in> set xs then None else Some (sum_list (observations xs)))"
proof (induction xs)
  case Nil
  show ?case by simp
next
  case (Cons c cs)
  then show ?case by (cases c) auto
qed

lemma length_observations_le: "length (observations xs) \<le> length xs"
  by (induction xs rule: observations.induct) auto

lemma length_observations_eq: "length (observations xs) = length xs \<longleftrightarrow> None \<notin> set xs"
proof (induction xs rule: observations.induct)
  case 1
  show ?case by simp
next
  case (2 cs)
  have "length (observations cs) \<le> length cs" by (rule length_observations_le)
  then show ?case by simp
next
  case (3 x cs)
  then show ?case by simp
qed

lemma window_rows_slice:
  "i < length xs \<Longrightarrow> window_rows w i xs = slice xs (Suc i - w) (Suc i)"
  unfolding window_rows_def slice_def
  by (rule nth_equalityI) (auto simp: nth_map_upt simp del: upt_Suc)

lemma length_window_rows: "i < length xs \<Longrightarrow> length (window_rows w i xs) = min w (Suc i)"
  unfolding window_rows_def by auto

lemma rolling_mean_at_eq:
  assumes "i < length cs" and "0 < w"
  shows "rolling_mean_at w w cs i =
           (if w - 1 \<le> i then arithmetic_mean (slice cs (i + 1 - w) (i + 1)) else None)"
proof -
  let ?win = "window_rows w i cs"
  have len: "length ?win = min w (Suc i)" using assms(1) by (rule length_window_rows)
  have le: "length (observations ?win) \<le> length ?win" by (rule length_observations_le)
  have win: "?win = slice cs (i + 1 - w) (i + 1)" using window_rows_slice[OF assms(1)] by simp
  show ?thesis
  proof (cases "w - 1 \<le> i")
    case False
    then have "length ?win < w" using len by simp
    with le have "\<not> w \<le> length (observations ?win)" by simp
    with False show ?thesis by (simp add: rolling_mean_at_def)
  next
    case True
    then have lw: "length ?win = w" using len assms(2) by simp
    then have ne: "?win \<noteq> []" using assms(2) by auto
    show ?thesis
    proof (cases "None \<in> set ?win")
      case True
      then have "length (observations ?win) \<noteq> length ?win" by (simp add: length_observations_eq)
      with le lw have "\<not> w \<le> length (observations ?win)" by simp
      moreover have "arithmetic_mean ?win = None"
        using True by (simp add: arithmetic_mean_def foldr_float_add)
      ultimately show ?thesis using \<open>w - 1 \<le> i\<close> win by (simp add: rolling_mean_at_def)
    next
      case False
      then have "length (observations ?win) = length ?win" by (simp add: length_observations_eq)
      then have lo: "length (observations ?win) = w" using lw by simp
      then have one: "observations ?win \<noteq> []" using assms(2) by auto
      have "arithmetic_mean ?win = Some (sum_list (observations ?win) / of_nat w)"
        using False ne lw by (simp add: arithmetic_mean_def foldr_float_add)
      then show ?thesis using \<open>w - 1 \<le> i\<close> win lo one assms(2)
        by (simp add: rolling_mean_at_def Let_def)
    qed
  qed
qed

lemma arithmetic_mean_present:
  "xs \<noteq> [] \<Longrightarrow> arithmetic_mean (map Some xs) = Some (sum_list xs / of_nat (length xs))"
proof -
  have "observations (map Some xs) = xs" by (induction xs) auto
  moreover have "None \<notin> set (map Some xs)" by auto
  ultimately show "xs \<noteq> [] \<Longrightarrow> ?thesis"
    by (simp add: arithmetic_mean_def foldr_float_add del: set_map)
qed

lemma length_rolling_mean: "length (rolling_mean w m cs) = length cs"
  by (simp add: rolling_mean_def)

lemma nth_rolling_mean: "i < length cs \<Longrightarrow> rolling_mean w m cs ! i = rolling_mean_at w m cs i"
  by (simp add: rolling_mean_def)

lemma compute_rolling_mean_numeric:
  assumes "df_getitem df ''close'' = Inr (Numeric close)" and "0 \<le> w"
  shows "compute_rolling_mean df (PInt w) tr =
           (Inr (rolling_mean (nat w) (nat w) close),
            tr @ [Log INFO ''Rolling mean calculated (window=%d)'' [PInt w]])"
  using assms by (simp add: compute_rolling_mean_def logger_info_def)

lemma generate_signals_numeric:
  assumes "df_getitem df ''close'' = Inr (Numeric close)" and "length rolling = length close"
  shows "generate_signals df rolling tr =
           (Inr (astype_int (map2 float_gt close rolling)),
            tr @ [Log INFO ''Signals generated: %d total'' [PInt (int (length close))]])"
  using assms by (simp add: generate_signals_def logger_info_def fillna_int_def astype_int_def)




section \<open>The metrics record\<close>







section \<open>The worked example, evaluated\<close>

lemma example_rolling:
  "rolling_mean 2 2 [Some 10, Some 20, Some 15, Some 25, Some 30]
     = [None, Some 15, Some (35 / 2), Some 20, Some (55 / 2)]"
  by (simp add: rolling_mean_def rolling_mean_at_def window_rows_def upt_rec Let_def)

text \<open>
  Claim C2. For the table with \<open>close = [10, 20, 15, 25, 30]\<close> and \<open>window = 2\<close>, the
  rolling means are \<open>[undefined, 15, 17.5, 20, 27.5]\<close>, the signals are
  \<open>[0, 1, 0, 1, 1]\<close>, and the \<open>value\<close> of the success record is 0.6, in
  \<^verbatim>\<open>compute_metrics\<close> and in the document a whole run writes.
\<close>

theorem scenario_window_2:
  "fst (compute_rolling_mean example_df (PInt 2) tr)
     = Inr [None, Some 15, Some (35 / 2), Some 20, Some (55 / 2)] \<and>
   fst (generate_signals example_df [None, Some 15, Some (35 / 2), Some 20, Some (55 / 2)] tr')
     = Inr [0, 1, 0, 1, 1] \<and>
   map_of (fst (compute_metrics example_df [0, 1, 0, 1, 1] version seed latency_ms tr''))
     ''value'' = Some (PFloat (Some (6 / 10))) \<and>
   exit_code (main example_env) = 0 \<and>
   written ''metrics.json'' (events (main example_env)) =
     [[(''version'', PStr ''v1''), (''rows_processed'', PInt 5),
       (''metric'', PStr ''signal_rate''), (''value'', PFloat (Some (6 / 10))),
       (''latency_ms'', PInt 250), (''seed'', PInt 42), (''status'', PStr ''success'')]]"
proof -
  have g: "df_getitem example_df ''close'' = Inr (Numeric [Some 10, Some 20, Some 15, Some 25, Some 30])"
    by (simp add: df_getitem_def example_df_def)
  have a: "fst (compute_rolling_mean example_df (PInt 2) tr)
     = Inr [None, Some 15, Some (35 / 2), Some 20, Some (55 / 2)]" for tr
    by (simp add: compute_rolling_mean_def g example_rolling)
  have b: "fst (generate_signals example_df [None, Some 15, Some (35 / 2), Some 20, Some (55 / 2)] tr')
     = Inr [0, 1, 0, 1, 1]" for tr'
    by (simp add: generate_signals_def g astype_int_def fillna_int_def Let_def)
  have m: "series_mean [0, 1, 0, 1, 1] = Some (3 / 5)" by (simp add: series_mean_def)
  have r: "py_round (3 / 5) 4 = 3 / 5"
    by (simp add: py_round_def round_half_even_def Let_def)
  have c: "map_of (fst (compute_metrics example_df [0, 1, 0, 1, 1] version seed latency_ms tr''))
     ''value'' = Some (PFloat (Some (6 / 10)))"
    by (simp add: compute_metrics_def Let_def m r round_float_def)
  have cfg: "load_config ''config.yaml'' (config_files example_env) tr =
     (Inr [(''seed'', PInt 42), (''window'', PInt 2), (''version'', PStr ''v1'')],
      tr @ [Log INFO ''Config loaded: seed=%d, window=%d, version=%s'' [PInt 42, PInt 2, PStr ''v1'']])" for tr
    by (simp add: load_config_def example_env_def required_fields_def getitem_def less_than_one_def logger_info_def)
  have dat: "load_data ''data.csv'' (input_files example_env) tr =
     (Inr example_df, tr @ [Log INFO ''Data loaded: %d rows'' [PInt 5]])" for tr
    by (simp add: load_data_def example_env_def df_empty_def example_df_def logger_info_def)
  have rr: "compute_rolling_mean example_df (PInt 2) tr
     = (Inr [None, Some 15, Some (35 / 2), Some 20, Some (55 / 2)],
        tr @ [Log INFO ''Rolling mean calculated (window=%d)'' [PInt 2]])" for tr
    by (simp add: compute_rolling_mean_def g example_rolling logger_info_def)
  have ss: "generate_signals example_df [None, Some 15, Some (35 / 2), Some 20, Some (55 / 2)] tr
     = (Inr [0, 1, 0, 1, 1], tr @ [Log INFO ''Signals generated: %d total'' [PInt 5]])" for tr
    by (simp add: generate_signals_def g astype_int_def fillna_int_def Let_def logger_info_def)
  have args: "arg_config example_env = ''config.yaml''" "arg_input example_env = ''data.csv''"
    "arg_output example_env = ''metrics.json''" "monotonic example_env 0 = 100"
    "monotonic example_env (Suc 0) = 401 / 4"
    by (simp_all add: example_env_def)
  have lat: "py_int 250 = 250"
    by (simp add: py_int_def)
  have cm: "compute_metrics example_df [0, 1, 0, 1, 1] version seed latency_ms tr =
     ([(''version'', version), (''rows_processed'', PInt 5),
       (''metric'', PStr ''signal_rate''), (''value'', PFloat (Some (3 / 5))),
       (''latency_ms'', PInt latency_ms), (''seed'', seed), (''status'', PStr ''success'')],
      tr @ [Log INFO ''Metrics: rows_processed=%d, signal_rate=%.4f, latency_ms=%d''
              [PInt 5, PFloat (Some (3 / 5)), PInt latency_ms]])" for version seed latency_ms tr
    by (simp add: compute_metrics_def Let_def m r round_float_def logger_info_def example_df_def)
  have body: "main_try example_env (PStr ''v1'') [] =
     (Inr (), PStr ''v1'',
      [Monotonic 100, Log INFO ''Job started'' [],
       Log INFO ''Config loaded: seed=%d, window=%d, version=%s'' [PInt 42, PInt 2, PStr ''v1''],
       SeedRNG 42, Log INFO ''Random seed set to %d'' [PInt 42],
       Log INFO ''Data loaded: %d rows'' [PInt 5],
       Log INFO ''Rolling mean calculated (window=%d)'' [PInt 2],
       Log INFO ''Signals generated: %d total'' [PInt 5],
       Monotonic (401 / 4),
       Log INFO ''Metrics: rows_processed=%d, signal_rate=%.4f, latency_ms=%d''
              [PInt 5, PFloat (Some (3 / 5)), PInt 250],
       WriteOutput ''metrics.json''
         [(''version'', PStr ''v1''), (''rows_processed'', PInt 5),
          (''metric'', PStr ''signal_rate''), (''value'', PFloat (Some (3 / 5))),
          (''latency_ms'', PInt 250), (''seed'', PInt 42), (''status'', PStr ''success'')],
       Print
         [(''version'', PStr ''v1''), (''rows_processed'', PInt 5),
          (''metric'', PStr ''signal_rate''), (''value'', PFloat (Some (3 / 5))),
          (''latency_ms'', PInt 250), (''seed'', PInt 42), (''status'', PStr ''success'')],
       Log INFO ''Job completed successfully'' []])"
    by (simp add: main_try_def args cfg dat rr ss cm lat getitem_def np_random_seed_def
          logger_info_def write_output_def Let_def)
  have d: "exit_code (main example_env) = 0" by (simp add: main_def body)
  have e: "written ''metrics.json'' (events (main example_env)) =
     [[(''version'', PStr ''v1''), (''rows_processed'', PInt 5),
       (''metric'', PStr ''signal_rate''), (''value'', PFloat (Some (6 / 10))),
       (''latency_ms'', PInt 250), (''seed'', PInt 42), (''status'', PStr ''success'')]]"
    by (simp add: main_def body)
  from a b c d e show ?thesis by blast
qed

section \<open>The stages of a run\<close>

lemma written_append: "written p (a @ b) = written p a @ written p b"
  by (induction p a rule: written.induct) auto

lemma check_fields_required:
  "check_fields config required_fields = None \<longleftrightarrow>
     (\<exists>seed window version.
        map_of config ''seed'' = Some seed \<and> isinstance seed Int_t \<and>
        map_of config ''window'' = Some window \<and> isinstance window Int_t \<and>
        map_of config ''version'' = Some version \<and> isinstance version Str_t)"
  by (auto simp: required_fields_def split: option.splits)

lemma isinstance_Int_t: "isinstance v Int_t \<longleftrightarrow> (\<exists>n. int_value v = Some n)"
  by (cases v) auto

lemma load_config_Inr:
  assumes "load_config p f tr = (Inr config, tr')"
  shows "f p = Some (Inr (PDict config)) \<and>
         (\<exists>seed window version n.
            map_of config ''seed'' = Some seed \<and> isinstance seed Int_t \<and>
            map_of config ''window'' = Some window \<and> int_value window = Some n \<and> 1 \<le> n \<and>
            map_of config ''version'' = Some version \<and> isinstance version Str_t \<and>
            tr' = tr @ [Log INFO ''Config loaded: seed=%d, window=%d, version=%s''
                          [seed, window, version]])"
proof -
  from assms obtain doc where f: "f p = Some (Inr doc)"
    by (auto simp: load_config_def split: option.splits sum.splits)
  from assms f have doc: "doc = PDict config"
    by (auto simp: load_config_def split: pyobj.splits option.splits sum.splits bool.splits prod.splits)
  from assms f doc have chk: "check_fields config required_fields = None"
    by (auto simp: load_config_def split: option.splits)
  then obtain seed window version where
    fields: "map_of config ''seed'' = Some seed" "isinstance seed Int_t"
      "map_of config ''window'' = Some window" "isinstance window Int_t"
      "map_of config ''version'' = Some version" "isinstance version Str_t"
    unfolding check_fields_required by blast
  from fields(4) obtain n where n: "int_value window = Some n"
    unfolding isinstance_Int_t by blast
  from assms f doc chk fields n have "1 \<le> n \<and>
     tr' = tr @ [Log INFO ''Config loaded: seed=%d, window=%d, version=%s'' [seed, window, version]]"
    by (auto simp: load_config_def getitem_def less_than_one_def logger_info_def split: bool.splits)
  with f doc fields n show ?thesis by blast
qed

lemma load_config_ok:
  assumes "f p = Some (Inr (PDict config))"
    and "map_of config ''seed'' = Some seed" and "isinstance seed Int_t"
    and "map_of config ''window'' = Some window" and "int_value window = Some n" and "1 \<le> n"
    and "map_of config ''version'' = Some version" and "isinstance version Str_t"
  shows "load_config p f tr =
           (Inr config, tr @ [Log INFO ''Config loaded: seed=%d, window=%d, version=%s''
                                [seed, window, version]])"
proof -
  have "isinstance window Int_t" using assms(5) unfolding isinstance_Int_t by blast
  then have "check_fields config required_fields = None"
    unfolding check_fields_required using assms by blast
  then show ?thesis using assms
    by (simp add: load_config_def getitem_def less_than_one_def logger_info_def)
qed



lemma np_random_seed_Inr:
  "np_random_seed seed tr = (Inr u, tr') \<longleftrightarrow>
     (\<exists>s. int_value seed = Some s \<and> 0 \<le> s \<and> s < 2 ^ 32 \<and> tr' = tr @ [SeedRNG s])"
  by (auto simp: np_random_seed_def split: option.splits)


lemma load_data_Inr:
  "load_data p f tr = (Inr df, tr') \<longleftrightarrow>
     (\<exists>sz. f p = Some (sz, Inr df) \<and> 0 < sz \<and> \<not> df_empty df \<and>
           map_of (columns df) ''close'' \<noteq> None \<and>
           tr' = tr @ [Log INFO ''Data loaded: %d rows'' [PInt (int (nrows df))]])"
  by (auto simp: load_data_def logger_info_def split: option.splits sum.splits if_splits)


lemma compute_rolling_mean_Inr:
  "compute_rolling_mean df window tr = (Inr rolling, tr') \<longleftrightarrow>
     (\<exists>close w. map_of (columns df) ''close'' = Some (Numeric close) \<and> window = PInt w \<and> 0 \<le> w \<and>
        rolling = rolling_mean (nat w) (nat w) close \<and>
        tr' = tr @ [Log INFO ''Rolling mean calculated (window=%d)'' [window]])"
  by (cases window)
     (auto simp: compute_rolling_mean_def df_getitem_def logger_info_def
           split: option.splits sum.splits column.splits if_splits)


lemma generate_signals_Inr:
  "generate_signals df rolling tr = (Inr signal, tr') \<longleftrightarrow>
     (\<exists>close. map_of (columns df) ''close'' = Some (Numeric close) \<and>
        length close = length rolling \<and>
        signal = astype_int (map2 float_gt close rolling) \<and>
        tr' = tr @ [Log INFO ''Signals generated: %d total'' [PInt (int (length close))]])"
  by (auto simp: generate_signals_def df_getitem_def logger_info_def fillna_int_def astype_int_def
           split: option.splits sum.splits column.splits if_splits)


lemma written_stage [simp]:
  "written p (tr @ [Log l fmt args]) = written p tr"
  "written p (tr @ [Monotonic t]) = written p tr"
  "written p (tr @ [SeedRNG s]) = written p tr"
  by (simp_all add: written_append)




section \<open>Successful runs\<close>

lemma main_success:
  assumes "config_files e (arg_config e) = Some (Inr (PDict config))"
    and "map_of config ''seed'' = Some seed" and "int_value seed = Some s"
    and "0 \<le> s" and "s < 2 ^ 32"
    and "map_of config ''window'' = Some (PInt w)" and "1 \<le> w"
    and "map_of config ''version'' = Some version" and "isinstance version Str_t"
    and "input_files e (arg_input e) = Some (sz, Inr df)" and "0 < sz" and "\<not> df_empty df"
    and "map_of (columns df) ''close'' = Some (Numeric close)"
  shows "main e =
    \<lparr>events =
       [Monotonic (monotonic e 0), Log INFO ''Job started'' [],
        Log INFO ''Config loaded: seed=%d, window=%d, version=%s'' [seed, PInt w, version],
        SeedRNG s, Log INFO ''Random seed set to %d'' [seed],
        Log INFO ''Data loaded: %d rows'' [PInt (int (nrows df))],
        Log INFO ''Rolling mean calculated (window=%d)'' [PInt w],
        Log INFO ''Signals generated: %d total'' [PInt (int (length close))],
        Monotonic (monotonic e 1),
        Log INFO ''Metrics: rows_processed=%d, signal_rate=%.4f, latency_ms=%d''
          [PInt (int (nrows df)),
           PFloat (series_mean (astype_int (map2 float_gt close (rolling_mean (nat w) (nat w) close)))),
           PInt (py_int ((monotonic e 1 - monotonic e 0) * 1000))],
        WriteOutput (arg_output e)
          [(''version'', version), (''rows_processed'', PInt (int (nrows df))),
           (''metric'', PStr ''signal_rate''),
           (''value'', PFloat (round_float (series_mean
              (astype_int (map2 float_gt close (rolling_mean (nat w) (nat w) close)))) 4)),
           (''latency_ms'', PInt (py_int ((monotonic e 1 - monotonic e 0) * 1000))),
           (''seed'', seed), (''status'', PStr ''success'')],
        Print
          [(''version'', version), (''rows_processed'', PInt (int (nrows df))),
           (''metric'', PStr ''signal_rate''),
           (''value'', PFloat (round_float (series_mean
              (astype_int (map2 float_gt close (rolling_mean (nat w) (nat w) close)))) 4)),
           (''latency_ms'', PInt (py_int ((monotonic e 1 - monotonic e 0) * 1000))),
           (''seed'', seed), (''status'', PStr ''success'')],
        Log INFO ''Job completed successfully'' []],
     exit_code = 0\<rparr>"
proof -
  have si: "isinstance seed Int_t" using assms(3) unfolding isinstance_Int_t by blast
  have wi: "int_value (PInt w) = Some w" by simp
  have cfg: "load_config (arg_config e) (config_files e) tr =
     (Inr config, tr @ [Log INFO ''Config loaded: seed=%d, window=%d, version=%s''
                          [seed, PInt w, version]])" for tr
    using assms(1,2) si assms(6) wi assms(7,8,9) by (rule load_config_ok)
  have sd: "np_random_seed seed tr = (Inr (), tr @ [SeedRNG s])" for tr
    using assms(3,4,5) by (simp add: np_random_seed_Inr)
  have dat: "load_data (arg_input e) (input_files e) tr =
     (Inr df, tr @ [Log INFO ''Data loaded: %d rows'' [PInt (int (nrows df))]])" for tr
    using assms(10-13) by (simp add: load_data_Inr)
  have rr: "compute_rolling_mean df (PInt w) tr =
     (Inr (rolling_mean (nat w) (nat w) close),
      tr @ [Log INFO ''Rolling mean calculated (window=%d)'' [PInt w]])" for tr
    using assms(7,13) by (simp add: compute_rolling_mean_Inr)
  have ss: "generate_signals df (rolling_mean (nat w) (nat w) close) tr =
     (Inr (astype_int (map2 float_gt close (rolling_mean (nat w) (nat w) close))),
      tr @ [Log INFO ''Signals generated: %d total'' [PInt (int (length close))]])" for tr
    using assms(13) by (simp add: generate_signals_Inr length_rolling_mean)
  have gi: "getitem config ''version'' = Inr version" "getitem config ''seed'' = Inr seed"
    "getitem config ''window'' = Inr (PInt w)"
    using assms(2,6,8) by (simp_all add: getitem_def)
  show ?thesis
    by (simp add: main_def main_try_def cfg sd dat rr ss gi compute_metrics_def write_output_def
          logger_info_def Let_def)
qed

lemma main_exit_code_0:
  assumes "exit_code (main e) = 0"
  shows "\<exists>config seed s w version sz df close.
           config_files e (arg_config e) = Some (Inr (PDict config)) \<and>
           map_of config ''seed'' = Some seed \<and> int_value seed = Some s \<and>
           0 \<le> s \<and> s < 2 ^ 32 \<and>
           map_of config ''window'' = Some (PInt w) \<and> 1 \<le> w \<and>
           map_of config ''version'' = Some version \<and> isinstance version Str_t \<and>
           input_files e (arg_input e) = Some (sz, Inr df) \<and> 0 < sz \<and> \<not> df_empty df \<and>
           map_of (columns df) ''close'' = Some (Numeric close)"
proof -
  let ?tr = "[Monotonic (monotonic e 0), Log INFO ''Job started'' []]"
  from assms obtain u v tr where body: "main_try e (PStr ''v1'') [] = (Inr u, v, tr)"
    by (auto simp: main_def Let_def split: prod.splits sum.splits)
  obtain r tr1 where l: "load_config (arg_config e) (config_files e) ?tr = (r, tr1)"
    by (cases "load_config (arg_config e) (config_files e) ?tr")
  from body l obtain config where r: "r = Inr config"
    by (cases r) (auto simp: main_try_def logger_info_def)
  from load_config_Inr [OF l [unfolded r]] obtain seed window version n where
    c: "config_files e (arg_config e) = Some (Inr (PDict config))"
      "map_of config ''seed'' = Some seed" "isinstance seed Int_t"
      "map_of config ''window'' = Some window" "int_value window = Some n" "1 \<le> n"
      "map_of config ''version'' = Some version" "isinstance version Str_t"
      "tr1 = ?tr @ [Log INFO ''Config loaded: seed=%d, window=%d, version=%s''
                          [seed, window, version]]"
    by blast
  from body l r c have rest:
    "\<exists>s sz df close w. int_value seed = Some s \<and> 0 \<le> s \<and> s < 2 ^ 32 \<and>
       input_files e (arg_input e) = Some (sz, Inr df) \<and> 0 < sz \<and> \<not> df_empty df \<and>
       map_of (columns df) ''close'' = Some (Numeric close) \<and> window = PInt w"
    by (auto simp: main_try_def logger_info_def getitem_def Let_def
                   np_random_seed_Inr load_data_Inr compute_rolling_mean_Inr
             split: sum.splits prod.splits)
  then obtain s sz df close w where
    d: "int_value seed = Some s" "0 \<le> s" "s < 2 ^ 32"
       "input_files e (arg_input e) = Some (sz, Inr df)" "0 < sz" "\<not> df_empty df"
       "map_of (columns df) ''close'' = Some (Numeric close)" "window = PInt w"
    by blast
  from c(5,6) d(8) have "1 \<le> w" by simp
  with c d show ?thesis by blast
qed

lemma config_result_Inr:
  assumes "config_result e = Inr config"
  shows "config_files e (arg_config e) = Some (Inr (PDict config)) \<and>
         (\<exists>seed window version n.
            map_of config ''seed'' = Some seed \<and> isinstance seed Int_t \<and>
            map_of config ''window'' = Some window \<and> int_value window = Some n \<and> 1 \<le> n \<and>
            map_of config ''version'' = Some version \<and> isinstance version Str_t \<and>
            (\<forall>tr. load_config (arg_config e) (config_files e) tr =
               (Inr config, tr @ [Log INFO ''Config loaded: seed=%d, window=%d, version=%s''
                          [seed, window, version]])))"
proof -
  obtain tr' where l: "load_config (arg_config e) (config_files e) [] = (Inr config, tr')"
    using assms unfolding config_result_def
    by (cases "load_config (arg_config e) (config_files e) []") auto
  from load_config_Inr [OF l] obtain seed window version n where
    c: "config_files e (arg_config e) = Some (Inr (PDict config))"
      "map_of config ''seed'' = Some seed" "isinstance seed Int_t"
      "map_of config ''window'' = Some window" "int_value window = Some n" "1 \<le> n"
      "map_of config ''version'' = Some version" "isinstance version Str_t"
    by blast
  have "load_config (arg_config e) (config_files e) tr =
               (Inr config, tr @ [Log INFO ''Config loaded: seed=%d, window=%d, version=%s''
                          [seed, window, version]])" for tr
    using c by (rule load_config_ok)
  with c show ?thesis by blast
qed

section \<open>Failures and the error record\<close>

text \<open>
  Claim C4. When the input table has no \<open>close\<close> column and everything else is in
  order (the configuration loads, the seed is accepted, the input file exists, is not
  empty and has rows), the run ends with exit code 1 and writes one record whose
  \<open>status\<close> is \<open>error\<close> and which has no \<open>rows_processed\<close> and no \<open>value\<close> field.
\<close>

theorem missing_close_column_error:
  assumes "config_result e = Inr config"
    and "map_of config ''seed'' = Some seed" and "int_value seed = Some s"
    and "0 \<le> s" and "s < 2 ^ 32"
    and "input_files e (arg_input e) = Some (sz, Inr df)" and "0 < sz" and "\<not> df_empty df"
    and "map_of (columns df) ''close'' = None"
  shows "exit_code (main e) = 1 \<and> last (events (main e)) = Exit 1 \<and>
         (\<exists>d. written (arg_output e) (events (main e)) = [d] \<and>
              map_of d ''status'' = Some (PStr ''error'') \<and>
              map_of d ''error_message'' =
                Some (PStr (''Input CSV missing required column: '' @ quoted ''close'')) \<and>
              map_of d ''rows_processed'' = None \<and> map_of d ''value'' = None)"
proof -
  from config_result_Inr [OF assms(1)] assms(2) obtain window version where
    c: "map_of config ''window'' = Some window" "map_of config ''version'' = Some version"
    and l: "\<And>tr. load_config (arg_config e) (config_files e) tr =
               (Inr config, tr @ [Log INFO ''Config loaded: seed=%d, window=%d, version=%s''
                          [seed, window, version]])"
    by auto
  have sd: "np_random_seed seed tr = (Inr (), tr @ [SeedRNG s])" for tr
    using assms(3,4,5) by (simp add: np_random_seed_Inr)
  have dat: "load_data (arg_input e) (input_files e) tr =
     (Inl (ValueError (''Input CSV missing required column: '' @ quoted ''close'')), tr)" for tr
    using assms(6-9) by (simp add: load_data_def)
  have body: "main_try e (PStr ''v1'') [] =
     (Inl (ValueError (''Input CSV missing required column: '' @ quoted ''close'')), version,
      [Monotonic (monotonic e 0), Log INFO ''Job started'' [],
       Log INFO ''Config loaded: seed=%d, window=%d, version=%s'' [seed, window, version],
       SeedRNG s, Log INFO ''Random seed set to %d'' [seed]])"
    using c assms(2) by (simp add: main_try_def l sd dat getitem_def logger_info_def)
  show ?thesis
    by (simp add: main_def body logger_error_def write_output_def build_error_output_def Let_def)
qed

theorem missing_close_column_error_witness:
  "config_result no_close_env =
     Inr [(''seed'', PInt 42), (''window'', PInt 2), (''version'', PStr ''v2'')] \<and>
   input_files no_close_env (arg_input no_close_env) = Some (20, Inr table_without_close) \<and>
   \<not> df_empty table_without_close \<and>
   map_of (columns table_without_close) ''close'' = None \<and>
   exit_code (main no_close_env) = 1 \<and>
   (\<exists>d. written ''metrics.json'' (events (main no_close_env)) = [d] \<and>
        map_of d ''status'' = Some (PStr ''error'') \<and>
        map_of d ''rows_processed'' = None \<and> map_of d ''value'' = None)"
proof -
  let ?config = "[(''seed'', PInt 42), (''window'', PInt 2), (''version'', PStr ''v2'')]"
  have h1: "config_result no_close_env = Inr ?config"
    by (simp add: config_result_def no_close_env_def example_env_def load_config_def
          required_fields_def getitem_def less_than_one_def logger_info_def)
  have h2: "map_of ?config ''seed'' = Some (PInt 42)" by simp
  have h3: "int_value (PInt 42) = Some 42" by simp
  have h4: "(0::int) \<le> 42" "(42::int) < 2 ^ 32" by simp_all
  have h6: "input_files no_close_env (arg_input no_close_env) = Some (20, Inr table_without_close)"
    by (simp add: no_close_env_def example_env_def)
  have h7: "(0::nat) < 20" by simp
  have h8: "\<not> df_empty table_without_close" by (simp add: df_empty_def table_without_close_def)
  have h9: "map_of (columns table_without_close) ''close'' = None"
    by (simp add: table_without_close_def)
  have out: "arg_output no_close_env = ''metrics.json''"
    by (simp add: no_close_env_def example_env_def)
  from missing_close_column_error [OF h1 h2 h3 h4 h6 h7 h8 h9]
  show ?thesis using h1 h6 h8 h9 unfolding out by blast
qed



section \<open>What a successful run does not owe to the clock, and what it does\<close>

lemma main_exit_code_cases: "exit_code (main e) = 0 \<or> exit_code (main e) = 1"
  by (auto simp: main_def Let_def split: prod.splits sum.splits)

text \<open>
  Claim C6. Two runs on the same arguments and files, which can differ only in what
  the clock returns, succeed together, and their success records agree in every field
  but \<open>latency_ms\<close>: \<open>version\<close>, \<open>rows_processed\<close>, \<open>metric\<close>, \<open>value\<close>, \<open>seed\<close> and
  \<open>status\<close>.
\<close>

theorem success_record_independent_of_clock:
  assumes "exit_code (main (e\<lparr>monotonic := clock1\<rparr>)) = 0"
  shows "exit_code (main (e\<lparr>monotonic := clock2\<rparr>)) = 0 \<and>
         (\<exists>d1 d2.
            written (arg_output e) (events (main (e\<lparr>monotonic := clock1\<rparr>))) = [d1] \<and>
            written (arg_output e) (events (main (e\<lparr>monotonic := clock2\<rparr>))) = [d2] \<and>
            map fst d1 = map fst d2 \<and>
            map_of d1 ''version'' = map_of d2 ''version'' \<and>
            map_of d1 ''rows_processed'' = map_of d2 ''rows_processed'' \<and>
            map_of d1 ''metric'' = map_of d2 ''metric'' \<and>
            map_of d1 ''value'' = map_of d2 ''value'' \<and>
            map_of d1 ''seed'' = map_of d2 ''seed'' \<and>
            map_of d1 ''status'' = map_of d2 ''status'' \<and>
            map_of d1 ''status'' = Some (PStr ''success''))"
proof -
  let ?e1 = "e\<lparr>monotonic := clock1\<rparr>" and ?e2 = "e\<lparr>monotonic := clock2\<rparr>"
  from main_exit_code_0 [OF assms] obtain config seed s w version sz df close where
    c: "config_files ?e1 (arg_config ?e1) = Some (Inr (PDict config))"
       "map_of config ''seed'' = Some seed" "int_value seed = Some s"
       "0 \<le> s" "s < 2 ^ 32"
       "map_of config ''window'' = Some (PInt w)" "1 \<le> w"
       "map_of config ''version'' = Some version" "isinstance version Str_t"
       "input_files ?e1 (arg_input ?e1) = Some (sz, Inr df)" "0 < sz" "\<not> df_empty df"
       "map_of (columns df) ''close'' = Some (Numeric close)"
    by blast
  have c2: "config_files ?e2 (arg_config ?e2) = Some (Inr (PDict config))"
    "input_files ?e2 (arg_input ?e2) = Some (sz, Inr df)"
    using c(1,10) by simp_all
  note m1 = main_success [OF c]
  note m2 = main_success [OF c2(1) c(2-9) c2(2) c(11-13)]
  show ?thesis unfolding m1 m2 by simp
qed

theorem success_record_independent_of_clock_witness:
  "exit_code (main (example_env\<lparr>monotonic := (\<lambda>k. if k = 0 then 100 else 100 + 1 / 4)\<rparr>)) = 0 \<and>
   exit_code (main (example_env\<lparr>monotonic := (\<lambda>k. 7 * of_nat k)\<rparr>)) = 0 \<and>
   (\<exists>d1 d2.
      written ''metrics.json''
        (events (main (example_env\<lparr>monotonic := (\<lambda>k. if k = 0 then 100 else 100 + 1 / 4)\<rparr>))) = [d1] \<and>
      written ''metrics.json''
        (events (main (example_env\<lparr>monotonic := (\<lambda>k. 7 * of_nat k)\<rparr>))) = [d2] \<and>
      map_of d1 ''value'' = map_of d2 ''value'' \<and>
      map_of d1 ''rows_processed'' = map_of d2 ''rows_processed'')"
proof -
  have same: "example_env\<lparr>monotonic := (\<lambda>k. if k = 0 then 100 else 100 + 1 / 4)\<rparr> = example_env"
    by (simp add: example_env_def)
  have cfg: "config_files example_env (arg_config example_env) =
      Some (Inr (PDict [(''seed'', PInt 42), (''window'', PInt 2), (''version'', PStr ''v1'')]))"
    by (simp add: example_env_def)
  have dat: "input_files example_env (arg_input example_env) = Some (20, Inr example_df)"
    by (simp add: example_env_def)
  have f: "map_of [(''seed'', PInt 42), (''window'', PInt 2), (''version'', PStr ''v1'')] ''seed''
              = Some (PInt 42)"
    "int_value (PInt 42) = Some 42" "(0::int) \<le> 42" "(42::int) < 2 ^ 32"
    "map_of [(''seed'', PInt 42), (''window'', PInt 2), (''version'', PStr ''v1'')] ''window''
              = Some (PInt 2)"
    "(1::int) \<le> 2"
    "map_of [(''seed'', PInt 42), (''window'', PInt 2), (''version'', PStr ''v1'')] ''version''
              = Some (PStr ''v1'')"
    "isinstance (PStr ''v1'') Str_t"
    by simp_all
  have g: "(0::nat) < 20" "\<not> df_empty example_df"
    "map_of (columns example_df) ''close'' =
       Some (Numeric [Some 10, Some 20, Some 15, Some 25, Some 30])"
    by (simp_all add: example_df_def df_empty_def)
  have h: "exit_code (main (example_env\<lparr>monotonic := (\<lambda>k. if k = 0 then 100 else 100 + 1 / 4)\<rparr>)) = 0"
    unfolding same by (subst main_success [OF cfg f dat g]) simp
  have out: "arg_output example_env = ''metrics.json''" by (simp add: example_env_def)
  from success_record_independent_of_clock [OF h, of "\<lambda>k. 7 * of_nat k"] h
  show ?thesis unfolding out by blast
qed

lemma position_prefix:
  "position is_job_started (Monotonic t # Log INFO ''Job started'' [] # rest) = Some 1"
  "position is_clock_reading (Monotonic t # rest') = Some 0"
  by (simp_all add: is_job_started_def)

lemma py_int_floor: "0 \<le> x \<Longrightarrow> py_int x = \<lfloor>x\<rfloor>"
  by (simp add: py_int_def)

text \<open>
  Claim C7, as amended. In every successful run \<open>latency_ms\<close> is the difference of two
  readings of the monotonic clock in whole milliseconds (the integer part, which is
  the floor as the clock does not go back). The first reading is the first effect of
  the run, taken immediately before the line "Job started" is logged, not after it;
  the second is taken after the signals are generated, immediately before
  \<^verbatim>\<open>compute_metrics\<close> starts.
\<close>

theorem latency_interval:
  assumes "exit_code (main e) = 0"
  shows "interval_starts_before_job_started (events (main e)) \<and>
         (\<exists>pre rows rate d.
            events (main e) =
              [Monotonic (monotonic e 0), Log INFO ''Job started'' []] @ pre @
              [Monotonic (monotonic e 1),
               Log INFO ''Metrics: rows_processed=%d, signal_rate=%.4f, latency_ms=%d''
                 [rows, rate, PInt (py_int ((monotonic e 1 - monotonic e 0) * 1000))],
               WriteOutput (arg_output e) d, Print d,
               Log INFO ''Job completed successfully'' []] \<and>
            list_all (\<lambda>ev. \<not> is_clock_reading ev) pre \<and>
            map_of d ''latency_ms'' =
              Some (PInt (py_int ((monotonic e 1 - monotonic e 0) * 1000)))) \<and>
         (monotonic e 0 \<le> monotonic e 1 \<longrightarrow>
            py_int ((monotonic e 1 - monotonic e 0) * 1000) =
              \<lfloor>(monotonic e 1 - monotonic e 0) * 1000\<rfloor>)"
proof -
  from main_exit_code_0 [OF assms] obtain config seed s w version sz df close where
    c: "config_files e (arg_config e) = Some (Inr (PDict config))"
       "map_of config ''seed'' = Some seed" "int_value seed = Some s"
       "0 \<le> s" "s < 2 ^ 32"
       "map_of config ''window'' = Some (PInt w)" "1 \<le> w"
       "map_of config ''version'' = Some version" "isinstance version Str_t"
       "input_files e (arg_input e) = Some (sz, Inr df)" "0 < sz" "\<not> df_empty df"
       "map_of (columns df) ''close'' = Some (Numeric close)"
    by blast
  note m = main_success [OF c]
  have a: "interval_starts_before_job_started (events (main e))"
    unfolding m by (simp add: interval_starts_before_job_started_def is_job_started_def)
  let ?pre = "[Log INFO ''Config loaded: seed=%d, window=%d, version=%s'' [seed, PInt w, version],
        SeedRNG s, Log INFO ''Random seed set to %d'' [seed],
        Log INFO ''Data loaded: %d rows'' [PInt (int (nrows df))],
        Log INFO ''Rolling mean calculated (window=%d)'' [PInt w],
        Log INFO ''Signals generated: %d total'' [PInt (int (length close))]]"
  have p: "list_all (\<lambda>ev. \<not> is_clock_reading ev) ?pre" by simp
  have b: "\<exists>pre rows rate d.
            events (main e) =
              [Monotonic (monotonic e 0), Log INFO ''Job started'' []] @ pre @
              [Monotonic (monotonic e 1),
               Log INFO ''Metrics: rows_processed=%d, signal_rate=%.4f, latency_ms=%d''
                 [rows, rate, PInt (py_int ((monotonic e 1 - monotonic e 0) * 1000))],
               WriteOutput (arg_output e) d, Print d,
               Log INFO ''Job completed successfully'' []] \<and>
            list_all (\<lambda>ev. \<not> is_clock_reading ev) pre \<and>
            map_of d ''latency_ms'' =
              Some (PInt (py_int ((monotonic e 1 - monotonic e 0) * 1000)))"
    unfolding m
    apply (rule exI [where x = ?pre])
    apply (intro exI conjI)
      apply (simp; fail)
     apply (rule p)
    apply simp
    done
  have "monotonic e 0 \<le> monotonic e 1 \<longrightarrow>
            py_int ((monotonic e 1 - monotonic e 0) * 1000) =
              \<lfloor>(monotonic e 1 - monotonic e 0) * 1000\<rfloor>"
    by (simp add: py_int_floor)
  with a b show ?thesis by blast
qed

lemma example_env_facts:
  "config_files example_env (arg_config example_env) =
      Some (Inr (PDict [(''seed'', PInt 42), (''window'', PInt 2), (''version'', PStr ''v1'')]))"
  "input_files example_env (arg_input example_env) = Some (20, Inr example_df)"
  "\<not> df_empty example_df"
  "map_of (columns example_df) ''close'' =
       Some (Numeric [Some 10, Some 20, Some 15, Some 25, Some 30])"
  by (simp_all add: example_env_def example_df_def df_empty_def)

lemma example_env_succeeds: "exit_code (main example_env) = 0"
  by (subst main_success [OF example_env_facts(1) _ _ _ _ _ _ _ _ example_env_facts(2) _
        example_env_facts(3,4), of "PInt 42" 42 2 "PStr ''v1''"]) simp_all

theorem latency_interval_witness:
  "exit_code (main example_env) = 0 \<and>
   interval_starts_before_job_started (events (main example_env)) \<and>
   monotonic example_env 0 \<le> monotonic example_env 1 \<and>
   py_int ((monotonic example_env 1 - monotonic example_env 0) * 1000) = 250"
proof -
  have m: "monotonic example_env 0 \<le> monotonic example_env 1"
    by (simp add: example_env_def)
  have "\<lfloor>(monotonic example_env 1 - monotonic example_env 0) * 1000\<rfloor> = 250"
    by (simp add: example_env_def)
  with latency_interval [OF example_env_succeeds] m example_env_succeeds
  show ?thesis by simp
qed

text \<open>
  The claim as the specification states it places the start of the interval after
  the line "Job started". In the run of the worked example the clock is read first.
\<close>

theorem clock_read_precedes_job_started:
  "exit_code (main example_env) = 0 \<and>
   \<not> interval_starts_after_job_started (events (main example_env))"
proof -
  have "events (main example_env) ! 0 = Monotonic 100 \<and>
        events (main example_env) ! 1 = Log INFO ''Job started'' [] \<and>
        \<not> interval_starts_after_job_started (events (main example_env))"
    by (subst (1 2 3) main_success [OF example_env_facts(1) _ _ _ _ _ _ _ _ example_env_facts(2) _
        example_env_facts(3,4), of "PInt 42" 42 2 "PStr ''v1''"])
       (simp_all add: interval_starts_after_job_started_def is_job_started_def example_env_def)
  with example_env_succeeds show ?thesis by simp
qed

section \<open>Fewer rows than the window\<close>

lemma rolling_mean_short:
  assumes "length close < w"
  shows "rolling_mean w w close = replicate (length close) None"
proof (rule nth_equalityI)
  show "length (rolling_mean w w close) = length (replicate (length close) None)"
    by (simp add: length_rolling_mean)
next
  fix i
  assume "i < length (rolling_mean w w close)"
  then have i: "i < length close" by (simp add: length_rolling_mean)
  with assms have w: "0 < w" "\<not> w - 1 \<le> i" by simp_all
  have "rolling_mean w w close ! i = None"
    using i w by (simp only: nth_rolling_mean rolling_mean_at_eq if_False)
  with i show "rolling_mean w w close ! i = replicate (length close) None ! i" by simp
qed

lemma float_gt_None [simp]: "float_gt c None = False"
  by (cases c) simp_all

lemma signals_of_undefined_mean:
  "astype_int (map2 float_gt close (replicate (length close) None)) = replicate (length close) 0"
  by (rule nth_equalityI) (simp_all add: astype_int_def)

lemma series_mean_zeros: "0 < n \<Longrightarrow> series_mean (replicate n 0) = Some 0"
  by (simp add: series_mean_def sum_list_replicate)

lemma py_round_0: "py_round 0 n = 0"
  by (simp add: py_round_def round_half_even_def)

text \<open>
  Claim C8. When the table is not empty and has fewer rows than the window, the run
  succeeds with exit code 0: every rolling mean is undefined, every signal is 0, and
  the \<open>value\<close> of the success record is 0.
\<close>

theorem fewer_rows_than_window:
  assumes "config_result e = Inr config"
    and "map_of config ''seed'' = Some seed" and "int_value seed = Some s"
    and "0 \<le> s" and "s < 2 ^ 32"
    and "map_of config ''window'' = Some (PInt w)"
    and "input_files e (arg_input e) = Some (sz, Inr df)" and "0 < sz" and "\<not> df_empty df"
    and "map_of (columns df) ''close'' = Some (Numeric close)"
    and "length close = nrows df" and "int (nrows df) < w"
  shows "exit_code (main e) = 0 \<and>
         fst (compute_rolling_mean df (PInt w) tr) = Inr (replicate (nrows df) None) \<and>
         fst (generate_signals df (replicate (nrows df) None) tr') = Inr (replicate (nrows df) 0) \<and>
         (\<exists>d. written (arg_output e) (events (main e)) = [d] \<and>
              map_of d ''status'' = Some (PStr ''success'') \<and>
              map_of d ''rows_processed'' = Some (PInt (int (nrows df))) \<and>
              map_of d ''value'' = Some (PFloat (Some 0)))"
proof -
  from config_result_Inr [OF assms(1)] assms(6) obtain version where
    c: "config_files e (arg_config e) = Some (Inr (PDict config))" "1 \<le> w"
       "map_of config ''version'' = Some version" "isinstance version Str_t"
    by auto
  have short: "length close < nat w" using assms(11,12) by simp
  have n: "0 < nrows df" using assms(9) by (simp add: df_empty_def)
  have rolling: "rolling_mean (nat w) (nat w) close = replicate (nrows df) None"
    using rolling_mean_short [OF short] assms(11) by simp
  have signal: "astype_int (map2 float_gt close (replicate (nrows df) None)) = replicate (nrows df) 0"
    using signals_of_undefined_mean [of close] assms(11) by simp
  have g: "df_getitem df ''close'' = Inr (Numeric close)"
    using assms(10) by (simp add: df_getitem_def)
  have a: "fst (compute_rolling_mean df (PInt w) tr) = Inr (replicate (nrows df) None)"
    using c(2) by (simp add: compute_rolling_mean_numeric [OF g] rolling)
  have b: "fst (generate_signals df (replicate (nrows df) None) tr') = Inr (replicate (nrows df) 0)"
    using assms(11) by (simp add: generate_signals_numeric [OF g] signal)
  note m = main_success [OF c(1) assms(2-6) c(2-4) assms(7-10)]
  have "exit_code (main e) = 0 \<and>
         (\<exists>d. written (arg_output e) (events (main e)) = [d] \<and>
              map_of d ''status'' = Some (PStr ''success'') \<and>
              map_of d ''rows_processed'' = Some (PInt (int (nrows df))) \<and>
              map_of d ''value'' = Some (PFloat (Some 0)))"
    unfolding m by (simp add: rolling signal series_mean_zeros [OF n] round_float_def py_round_0)
  with a b show ?thesis by blast
qed

theorem fewer_rows_than_window_witness:
  "config_result wide_window_env =
     Inr [(''seed'', PInt 42), (''window'', PInt 10), (''version'', PStr ''v1'')] \<and>
   \<not> df_empty example_df \<and> int (nrows example_df) < 10 \<and>
   exit_code (main wide_window_env) = 0 \<and>
   (\<exists>d. written ''metrics.json'' (events (main wide_window_env)) = [d] \<and>
        map_of d ''value'' = Some (PFloat (Some 0)))"
proof -
  let ?config = "[(''seed'', PInt 42), (''window'', PInt 10), (''version'', PStr ''v1'')]"
  have h1: "config_result wide_window_env = Inr ?config"
    by (simp add: config_result_def wide_window_env_def example_env_def load_config_def
          required_fields_def getitem_def less_than_one_def logger_info_def)
  have h2: "map_of ?config ''seed'' = Some (PInt 42)" "int_value (PInt 42) = Some 42"
    "(0::int) \<le> 42" "(42::int) < 2 ^ 32" "map_of ?config ''window'' = Some (PInt 10)"
    by simp_all
  have h3: "input_files wide_window_env (arg_input wide_window_env) = Some (20, Inr example_df)"
    "(0::nat) < 20"
    by (simp_all add: wide_window_env_def example_env_def)
  have h4: "length [Some 10, Some 20, Some 15, Some 25, Some (30::rat)] = nrows example_df"
    "int (nrows example_df) < 10"
    by (simp_all add: example_df_def)
  have out: "arg_output wide_window_env = ''metrics.json''"
    by (simp add: wide_window_env_def example_env_def)
  from fewer_rows_than_window [OF h1 h2 h3 example_env_facts(3,4) h4]
  show ?thesis using h1 example_env_facts(3) h4(2) unfolding out by blast
qed

section \<open>Booleans in the configuration\<close>


section \<open>The generated data\<close>

lemma length_draw: "length (fst (draw f n st)) = n"
proof (induction n arbitrary: st)
  case 0
  show ?case by simp
next
  case (Suc n)
  obtain x st1 where f: "f st = (x, st1)" by (cases "f st")
  obtain xs st2 where d: "draw f n st1 = (xs, st2)" by (cases "draw f n st1")
  from Suc.IH [of st1] d have "length xs = n" by simp
  with f d show ?case by simp
qed

lemma random_normal_length:
  "random_normal g loc scale n st = (xs, st') \<Longrightarrow> length xs = n"
  using length_draw [of "standard_normal g" n st]
  by (auto simp: random_normal_def split: prod.splits)

lemma random_uniform_length:
  "random_uniform g low high n st = (xs, st') \<Longrightarrow> length xs = n"
  using length_draw [of "random_sample g" n st]
  by (auto simp: random_uniform_def split: prod.splits)

lemma length_cumprod_from: "length (cumprod_from acc xs) = length xs"
  by (induction xs arbitrary: acc) auto

lemma length_cumprod: "length (cumprod xs) = length xs"
  by (simp add: cumprod_def length_cumprod_from)

lemma data_frame_five:
  assumes "length a = n" and "length b = n" and "length c = n" and "length d = n"
    and "length v = n"
  shows "data_frame [(''open'', a), (''high'', b), (''low'', c), (''close'', d), (''volume'', v)]
           = Inr \<lparr>nrows = n,
                  columns = [(''open'', Numeric (map Some a)), (''high'', Numeric (map Some b)),
                             (''low'', Numeric (map Some c)), (''close'', Numeric (map Some d)),
                             (''volume'', Numeric (map Some v))]\<rparr>"
  using assms by (simp add: data_frame_def)

lemma generate_data_frame:
  "\<exists>a b c d v. length a = 10000 \<and> length b = 10000 \<and> length c = 10000 \<and>
     length d = 10000 \<and> length v = 10000 \<and>
     generate_data g st0 =
       data_frame [(''open'', a), (''high'', b), (''low'', c), (''close'', d), (''volume'', v)]"
proof -
  obtain returns st1 where
    r1: "random_normal g (1 / 10000) (2 / 100) 10000 (seeded g 42) = (returns, st1)"
    by (cases "random_normal g (1 / 10000) (2 / 100) 10000 (seeded g 42)")
  obtain up st2 where r2: "random_normal g 0 (5 / 1000) 10000 st1 = (up, st2)"
    by (cases "random_normal g 0 (5 / 1000) 10000 st1")
  obtain down st3 where r3: "random_normal g 0 (5 / 1000) 10000 st2 = (down, st3)"
    by (cases "random_normal g 0 (5 / 1000) 10000 st2")
  obtain mix st4 where r4: "random_uniform g (2 / 10) (8 / 10) 10000 st3 = (mix, st4)"
    by (cases "random_uniform g (2 / 10) (8 / 10) 10000 st3")
  obtain vol st5 where r5: "random_uniform g 100 10000 10000 st4 = (vol, st5)"
    by (cases "random_uniform g 100 10000 10000 st4")
  note len = random_normal_length [OF r1] random_normal_length [OF r2]
    random_normal_length [OF r3] random_uniform_length [OF r4] random_uniform_length [OF r5]
  let ?close = "map (\<lambda>c. 30000 * c) (cumprod (map (\<lambda>r. 1 + r) returns))"
  let ?high = "map2 (\<lambda>c x. c * (1 + \<bar>x\<bar>)) ?close up"
  let ?low = "map2 (\<lambda>c x. c * (1 - \<bar>x\<bar>)) ?close down"
  let ?open = "map2 (\<lambda>(l, h) u. l + (h - l) * u) (zip ?low ?high) mix"
  have eq: "generate_data g st0 =
       data_frame [(''open'', map (\<lambda>v. py_round v 2) ?open),
                   (''high'', map (\<lambda>v. py_round v 2) ?high),
                   (''low'', map (\<lambda>v. py_round v 2) ?low),
                   (''close'', map (\<lambda>v. py_round v 2) ?close),
                   (''volume'', map (\<lambda>v. py_round v 2) vol)]"
    unfolding generate_data_def Let_def r1 r2 r3 r4 r5 prod.case ..
  have "length (map (\<lambda>v. py_round v 2) ?open) = 10000"
    "length (map (\<lambda>v. py_round v 2) ?high) = 10000"
    "length (map (\<lambda>v. py_round v 2) ?low) = 10000"
    "length (map (\<lambda>v. py_round v 2) ?close) = 10000"
    "length (map (\<lambda>v. py_round v 2) vol) = 10000"
    using len by (simp_all add: length_cumprod)
  with eq show ?thesis by blast
qed

text \<open>
  Claim C10. The generator does not depend on the state the random number generator
  was in (it seeds it with 42 first), and it always produces a table of exactly 10000
  rows with the columns \<open>open\<close>, \<open>high\<close>, \<open>low\<close>, \<open>close\<close> and \<open>volume\<close>. Written to a
  file, that table passes the checks of \<^verbatim>\<open>load_data\<close>: it is not empty and has a
  \<open>close\<close> column.
\<close>

theorem generated_table_is_loadable:
  "generate_data g st0 = generate_data g st0' \<and>
   (\<exists>df. generate_data g st0 = Inr df \<and>
      nrows df = 10000 \<and>
      map fst (columns df) = [''open'', ''high'', ''low'', ''close'', ''volume''] \<and>
      well_formed df \<and> \<not> df_empty df \<and> map_of (columns df) ''close'' \<noteq> None \<and>
      fst (load_data path [path \<mapsto> to_csv df rows_size] tr) = Inr df)"
proof -
  have indep: "generate_data g st0 = generate_data g st0'"
    by (simp add: generate_data_def)
  obtain a b c d v where
    len: "length a = 10000" "length b = 10000" "length c = 10000" "length d = 10000"
      "length v = 10000"
    and gen: "generate_data g st0 =
       data_frame [(''open'', a), (''high'', b), (''low'', c), (''close'', d), (''volume'', v)]"
    using generate_data_frame [of g st0] by blast
  let ?df = "\<lparr>nrows = 10000,
                  columns = [(''open'', Numeric (map Some a)), (''high'', Numeric (map Some b)),
                             (''low'', Numeric (map Some c)), (''close'', Numeric (map Some d)),
                             (''volume'', Numeric (map Some v))]\<rparr>"
  have df: "generate_data g st0 = Inr ?df"
    unfolding gen using len by (rule data_frame_five)
  have wf: "well_formed ?df" using len by (simp add: well_formed_def)
  have ne: "\<not> df_empty ?df" by (simp add: df_empty_def)
  have cl: "map_of (columns ?df) ''close'' \<noteq> None" by simp
  have sz: "0 < fst (to_csv ?df rows_size)" by (simp add: to_csv_def header_line_def)
  have ld: "fst (load_data path [path \<mapsto> to_csv ?df rows_size] tr) = Inr ?df"
    using sz by (simp add: load_data_def to_csv_def df_empty_def)
  have nr: "nrows ?df = 10000" by simp
  have names: "map fst (columns ?df) = [''open'', ''high'', ''low'', ''close'', ''volume'']"
    by simp
  have "generate_data g st0 = Inr ?df \<and>
      nrows ?df = 10000 \<and>
      map fst (columns ?df) = [''open'', ''high'', ''low'', ''close'', ''volume''] \<and>
      well_formed ?df \<and> \<not> df_empty ?df \<and> map_of (columns ?df) ''close'' \<noteq> None \<and>
      fst (load_data path [path \<mapsto> to_csv ?df rows_size] tr) = Inr ?df"
    by (intro conjI df nr names wf ne cl ld)
  then have "\<exists>df. generate_data g st0 = Inr df \<and>
      nrows df = 10000 \<and>
      map fst (columns df) = [''open'', ''high'', ''low'', ''close'', ''volume''] \<and>
      well_formed df \<and> \<not> df_empty df \<and> map_of (columns df) ''close'' \<noteq> None \<and>
      fst (load_data path [path \<mapsto> to_csv df rows_size] tr) = Inr df"
    by (rule exI)
  with indep show ?thesis by (rule conjI)
qed

end
